theory Spec2Isabelle
  imports Main
begin

section \<open>Strings, errors and field types\<close>

text \<open>
  A Python \<open>str\<close> is modelled as a \<open>string\<close> whose every \<open>char\<close> is one Python
  character, the one with that code point (0 to 255); \<open>length\<close> then counts what
  Python's \<open>len\<close> counts. Among these characters the ones of Unicode category Nd (what
  \<open>\d\<close> of a \<open>str\<close> pattern matches) are the ASCII digits; \<open>str.isdigit\<close> also
  accepts the superscript digits U+00B2, U+00B3 and U+00B9.
\<close>

definition re_digit :: "char \<Rightarrow> bool" where
  "re_digit c = (c \<in> set ''0123456789'')"

definition isdigit_char :: "char \<Rightarrow> bool" where
  "isdigit_char c = (re_digit c \<or> c \<in> set [CHR 0xB2, CHR 0xB3, CHR 0xB9])"

text \<open>\<open>str.isdigit\<close>: every character is a digit and there is at least one.\<close>

definition isdigit :: "string \<Rightarrow> bool" where
  "isdigit s = (s \<noteq> [] \<and> list_all isdigit_char s)"

text \<open>
  The exceptions of the program: a \<open>ValueError\<close> carries its message; a \<open>KeyError\<close>
  comes from indexing the book with a missing name.
\<close>

datatype error = ValueError string | KeyError

text \<open>
  The classes \<open>Name\<close>, \<open>Phone\<close> and \<open>Birthday\<close> derive from \<open>Field\<close>: an object holds
  \<open>value\<close>, and \<open>__str__\<close> returns it. \<open>Field\<close> defines no \<open>__eq__\<close>.
\<close>

datatype Name = NameObj (name_value: string)
datatype Phone = PhoneObj (phone_value: string)
datatype Birthday = BirthdayObj (birthday_value: string)

definition Phone :: "string \<Rightarrow> error + Phone" where
  "Phone v =
     (if \<not> isdigit v \<or> length v \<noteq> 10
      then Inl (ValueError ''Phone number must contain 10 digits.'')
      else Inr (PhoneObj v))"

definition str_Phone :: "Phone \<Rightarrow> string" where
  "str_Phone p = phone_value p"

section \<open>Calendar dates of the \<open>datetime\<close> library\<close>

text \<open>
  \<open>datetime.date\<close>: a year, a month and a day, Python integers. The constructor checks
  the fields (year 1 to 9999, month 1 to 12, day 1 to the length of the month) and raises
  \<open>ValueError\<close> otherwise; the text of the library's messages differs between Python
  versions and is indicative only.
\<close>

datatype date = Date (year: int) (month: int) (day: int)

definition is_leap :: "int \<Rightarrow> bool" where
  "is_leap y = (y mod 4 = 0 \<and> (y mod 100 \<noteq> 0 \<or> y mod 400 = 0))"

definition DAYS_IN_MONTH :: "int list" where
  "DAYS_IN_MONTH = [31, 28, 31, 30, 31, 30, 31, 31, 30, 31, 30, 31]"

definition DAYS_BEFORE_MONTH :: "int list" where
  "DAYS_BEFORE_MONTH = [0, 31, 59, 90, 120, 151, 181, 212, 243, 273, 304, 334]"

definition days_in_month :: "int \<Rightarrow> int \<Rightarrow> int" where
  "days_in_month y m = (if m = 2 \<and> is_leap y then 29 else DAYS_IN_MONTH ! nat (m - 1))"

definition days_before_year :: "int \<Rightarrow> int" where
  "days_before_year y = (y - 1) * 365 + (y - 1) div 4 - (y - 1) div 100 + (y - 1) div 400"

definition days_before_month :: "int \<Rightarrow> int \<Rightarrow> int" where
  "days_before_month y m =
     DAYS_BEFORE_MONTH ! nat (m - 1) + (if m > 2 \<and> is_leap y then 1 else 0)"

definition MAXYEAR :: int where
  "MAXYEAR = 9999"

definition date_new :: "int \<Rightarrow> int \<Rightarrow> int \<Rightarrow> error + date" where
  "date_new y m d =
     (if \<not> (1 \<le> y \<and> y \<le> MAXYEAR) then Inl (ValueError ''year is out of range'')
      else if \<not> (1 \<le> m \<and> m \<le> 12) then Inl (ValueError ''month must be in 1..12'')
      else if \<not> (1 \<le> d \<and> d \<le> days_in_month y m)
        then Inl (ValueError ''day is out of range for month'')
      else Inr (Date y m d))"

text \<open>\<open>date.replace(year=y)\<close> builds a new date from the new year and the old month and day.\<close>

definition replace_year :: "date \<Rightarrow> int \<Rightarrow> error + date" where
  "replace_year d y = date_new y (month d) (day d)"

definition toordinal :: "date \<Rightarrow> int" where
  "toordinal d = days_before_year (year d) + days_before_month (year d) (month d) + day d"

text \<open>Dates compare as the tuples (year, month, day).\<close>

definition date_less :: "date \<Rightarrow> date \<Rightarrow> bool" where
  "date_less a b =
     (year a < year b \<or> (year a = year b \<and>
       (month a < month b \<or> (month a = month b \<and> day a < day b))))"

text \<open>\<open>a - b\<close> is a \<open>timedelta\<close> of whole days; the model keeps its number of days.\<close>

definition date_sub :: "date \<Rightarrow> date \<Rightarrow> int" where
  "date_sub a b = toordinal a - toordinal b"

subsection \<open>Parsing and printing with the format \<open>%d.%m.%Y\<close>\<close>

text \<open>
  \<open>strptime\<close> turns the format into the regular expression
  \<^verbatim>\<open>(?P<d>3[0-1]|[1-2]\d|0[1-9]|[1-9]| [1-9])\.(?P<m>1[0-2]|0[1-9]|[1-9])\.(?P<Y>\d\d\d\d)\<close>
  and matches it at the start of the text. Each group below returns the ways it can match
  a prefix, as pairs of the matched text and the rest, in the order in which the
  backtracking matcher tries its alternatives.
\<close>

definition re_one :: "(char \<Rightarrow> bool) \<Rightarrow> string \<Rightarrow> (string \<times> string) list" where
  "re_one P s = (case s of a # r \<Rightarrow> if P a then [([a], r)] else [] | _ \<Rightarrow> [])"

definition re_two ::
  "(char \<Rightarrow> bool) \<Rightarrow> (char \<Rightarrow> bool) \<Rightarrow> string \<Rightarrow> (string \<times> string) list" where
  "re_two P Q s =
     (case s of a # b # r \<Rightarrow> if P a \<and> Q b then [([a, b], r)] else [] | _ \<Rightarrow> [])"

definition one_to_nine :: "char \<Rightarrow> bool" where
  "one_to_nine c = (c \<in> set ''123456789'')"

definition re_d :: "string \<Rightarrow> (string \<times> string) list" where
  "re_d s =
     re_two (\<lambda>c. c = CHR ''3'') (\<lambda>c. c \<in> set ''01'') s @
     re_two (\<lambda>c. c \<in> set ''12'') re_digit s @
     re_two (\<lambda>c. c = CHR ''0'') one_to_nine s @
     re_one one_to_nine s @
     re_two (\<lambda>c. c = CHR '' '') one_to_nine s"

definition re_m :: "string \<Rightarrow> (string \<times> string) list" where
  "re_m s =
     re_two (\<lambda>c. c = CHR ''1'') (\<lambda>c. c \<in> set ''012'') s @
     re_two (\<lambda>c. c = CHR ''0'') one_to_nine s @
     re_one one_to_nine s"

definition re_Y :: "string \<Rightarrow> (string \<times> string) list" where
  "re_Y s =
     (case s of a # b # c # d # r \<Rightarrow>
        if re_digit a \<and> re_digit b \<and> re_digit c \<and> re_digit d then [([a, b, c, d], r)] else []
      | _ \<Rightarrow> [])"

definition re_dot :: "string \<Rightarrow> string list" where
  "re_dot s = (case s of a # r \<Rightarrow> if a = CHR ''.'' then [r] else [] | _ \<Rightarrow> [])"



text \<open>All matches of the whole expression, the matcher's first choice first.\<close>

definition re_dmY :: "string \<Rightarrow> (string \<times> string \<times> string \<times> string) list" where
  "re_dmY s =
     concat (map (\<lambda>(d, r1).
       concat (map (\<lambda>r2.
         concat (map (\<lambda>(m, r3).
           concat (map (\<lambda>r4.
             map (\<lambda>(y, rest). (d, m, y, rest)) (re_Y r4))
           (re_dot r3)))
         (re_m r2)))
       (re_dot r1)))
     (re_d s))"

text \<open>
  \<open>int\<close> on the text of a group: a leading blank is skipped, the decimal digits are read.
  It is applied to the groups' texts only, which are ASCII digits after at most one blank.
\<close>

definition digit_value :: "char \<Rightarrow> int" where
  "digit_value c = of_char c - 48"

definition py_int :: "string \<Rightarrow> int" where
  "py_int s = foldl (\<lambda>a c. 10 * a + digit_value c) 0 (dropWhile (\<lambda>c. c = CHR '' '') s)"

text \<open>
  \<open>datetime.strptime(s, "%d.%m.%Y").date()\<close>: no match raises, text left after the match
  raises, and the date found is built by the checking constructor.
\<close>

definition strptime :: "string \<Rightarrow> error + date" where
  "strptime s =
     (case re_dmY s of
        [] \<Rightarrow> Inl (ValueError ''time data does not match format'')
      | (d, m, y, rest) # _ \<Rightarrow>
          if rest \<noteq> [] then Inl (ValueError ''unconverted data remains'')
          else date_new (py_int y) (py_int m) (py_int d))"

text \<open>
  \<open>strftime("%d.%m.%Y")\<close>: day and month in two digits, the year in four (years below
  1000 are padded with zeros here; the C library decides that on a real platform).
\<close>

definition digit_char :: "int \<Rightarrow> char" where
  "digit_char n = ''0123456789'' ! nat n"

definition strftime :: "date \<Rightarrow> string" where
  "strftime d =
     [digit_char (day d div 10), digit_char (day d mod 10), CHR ''.'',
      digit_char (month d div 10), digit_char (month d mod 10), CHR ''.'',
      digit_char (year d div 1000), digit_char (year d div 100 mod 10),
      digit_char (year d div 10 mod 10), digit_char (year d mod 10)]"

definition Birthday :: "string \<Rightarrow> error + Birthday" where
  "Birthday v =
     (case strptime v of
        Inl e \<Rightarrow> Inl (ValueError ''Invalid date format. Use DD.MM.YYYY'')
      | Inr d \<Rightarrow> Inr (BirthdayObj v))"

section \<open>Contact records\<close>

record Record =
  name :: Name
  phones :: "Phone list"
  birthday :: "Birthday option"

definition Record :: "string \<Rightarrow> Record" where
  "Record n = \<lparr>name = NameObj n, phones = [], birthday = None\<rparr>"

text \<open>
  \<open>phone in self.phones\<close> and \<open>self.phones.index(phone)\<close> compare the \<open>str\<close> argument
  with the stored \<open>Phone\<close> objects by \<open>==\<close>. Neither \<open>str.__eq__\<close> nor the
  \<open>object.__eq__\<close> that \<open>Phone\<close> inherits handles the other type, so Python falls back to
  identity, and a \<open>str\<close> is never the same object as a \<open>Phone\<close>.
\<close>

definition str_eq_Phone :: "string \<Rightarrow> Phone \<Rightarrow> bool" where
  "str_eq_Phone s p = False"

definition str_in_phones :: "string \<Rightarrow> Phone list \<Rightarrow> bool" where
  "str_in_phones s ps = list_ex (str_eq_Phone s) ps"

fun index_str :: "string \<Rightarrow> Phone list \<Rightarrow> nat option" where
  "index_str s [] = None"
| "index_str s (p # ps) =
     (if str_eq_Phone s p then Some 0 else map_option Suc (index_str s ps))"

text \<open>
  A method returns its outcome (an error, or \<open>None\<close> as the unit value) together with the
  record as it is after the call, so that what a failed call leaves behind is visible.
\<close>

definition add_phone :: "string \<Rightarrow> Record \<Rightarrow> (error + unit) \<times> Record" where
  "add_phone phone self =
     (if \<not> str_in_phones phone (phones self) then
        (case Phone phone of
           Inl e \<Rightarrow> (Inl e, self)
         | Inr p \<Rightarrow> (Inr (), self\<lparr>phones := phones self @ [p]\<rparr>))
      else (Inr (), self))"

definition remove_phone :: "string \<Rightarrow> Record \<Rightarrow> (error + unit) \<times> Record" where
  "remove_phone phone self =
     (Inr (), self\<lparr>phones := filter (\<lambda>p. str_Phone p \<noteq> phone) (phones self)\<rparr>)"

definition edit_phone :: "string \<Rightarrow> string \<Rightarrow> Record \<Rightarrow> (error + unit) \<times> Record" where
  "edit_phone old_phone new_phone self =
     (if str_in_phones old_phone (phones self) then
        (case index_str old_phone (phones self) of
           None \<Rightarrow> (Inl (ValueError ''value is not in list''), self)
         | Some idx \<Rightarrow>
             (case Phone new_phone of
                Inl e \<Rightarrow> (Inl e, self)
              | Inr p \<Rightarrow> (Inr (), self\<lparr>phones := (phones self)[idx := p]\<rparr>)))
      else (Inr (), self))"

definition add_birthday :: "string \<Rightarrow> Record \<Rightarrow> (error + unit) \<times> Record" where
  "add_birthday b self =
     (case Birthday b of
        Inl e \<Rightarrow> (Inl e, self)
      | Inr v \<Rightarrow> (Inr (), self\<lparr>birthday := Some v\<rparr>))"

section \<open>The address book\<close>

text \<open>
  \<open>AddressBook\<close> is a \<open>UserDict\<close>: its \<open>data\<close> is a dictionary, which keeps its keys in
  the order of their first insertion. It is modelled as the list of its items in that
  order. The book holds its records by reference; a method that mutates a record of the
  book is modelled by storing the mutated record under its key.
\<close>

type_synonym AddressBook = "(string \<times> Record) list"

fun dict_set :: "string \<Rightarrow> Record \<Rightarrow> AddressBook \<Rightarrow> AddressBook" where
  "dict_set k v [] = [(k, v)]"
| "dict_set k v ((k', v') # rest) =
     (if k' = k then (k', v) # rest else (k', v') # dict_set k v rest)"

definition dict_contains :: "string \<Rightarrow> AddressBook \<Rightarrow> bool" where
  "dict_contains k book = (k \<in> set (map fst book))"

definition add_record :: "Record \<Rightarrow> AddressBook \<Rightarrow> AddressBook" where
  "add_record record book = dict_set (name_value (name record)) record book"

definition find_record :: "string \<Rightarrow> AddressBook \<Rightarrow> Record option" where
  "find_record n book = map_of book n"

definition delete :: "string \<Rightarrow> AddressBook \<Rightarrow> AddressBook" where
  "delete n book =
     (if dict_contains n book then filter (\<lambda>(k, v). k \<noteq> n) book else book)"

subsection \<open>Upcoming birthdays\<close>

text \<open>
  One round of the loop of \<open>get_upcoming_birthdays\<close> for one record, with \<open>today\<close> (the
  value of \<open>datetime.now().date()\<close>) as a parameter. Both \<open>replace\<close> calls can raise.
\<close>

definition upcoming_step ::
  "date \<Rightarrow> Record \<Rightarrow> (string \<times> string) list \<Rightarrow> error + (string \<times> string) list" where
  "upcoming_step today record upcoming_birthdays =
     (case birthday record of
        None \<Rightarrow> Inr upcoming_birthdays
      | Some b \<Rightarrow>
          (case strptime (birthday_value b) of
             Inl e \<Rightarrow> Inl e
           | Inr parsed \<Rightarrow>
               (case replace_year parsed (year today) of
                  Inl e \<Rightarrow> Inl e
                | Inr birthday_date \<Rightarrow>
                    (case (if date_less birthday_date today
                           then replace_year birthday_date (year today + 1)
                           else Inr birthday_date) of
                       Inl e \<Rightarrow> Inl e
                     | Inr birthday_date' \<Rightarrow>
                         Inr (if date_sub birthday_date' today \<le> 7
                              then upcoming_birthdays @
                                [(name_value (name record), strftime birthday_date')]
                              else upcoming_birthdays)))))"

text \<open>The loop over \<open>self.values()\<close>; it returns the outcome and the book after the call.\<close>

fun upcoming_loop ::
  "date \<Rightarrow> Record list \<Rightarrow> AddressBook \<Rightarrow> (string \<times> string) list \<Rightarrow>
     (error + (string \<times> string) list) \<times> AddressBook" where
  "upcoming_loop today [] self upcoming_birthdays = (Inr upcoming_birthdays, self)"
| "upcoming_loop today (record # rest) self upcoming_birthdays =
     (case upcoming_step today record upcoming_birthdays of
        Inl e \<Rightarrow> (Inl e, self)
      | Inr upcoming_birthdays' \<Rightarrow> upcoming_loop today rest self upcoming_birthdays')"

definition get_upcoming_birthdays ::
  "date \<Rightarrow> AddressBook \<Rightarrow> (error + (string \<times> string) list) \<times> AddressBook" where
  "get_upcoming_birthdays today self = upcoming_loop today (map snd self) self []"

section \<open>The \<open>add\<close> command\<close>

text \<open>
  \<open>PHONE_PATTERN.match\<close> with the pattern \<^verbatim>\<open>^\d{10}$\<close>: ten digits at the start, and
  then the end of the text or one newline before the end.
\<close>

definition PHONE_PATTERN_match :: "string \<Rightarrow> bool" where
  "PHONE_PATTERN_match s =
     (length s \<ge> 10 \<and> list_all re_digit (take 10 s) \<and>
      (drop 10 s = [] \<or> drop 10 s = [CHR 0x0A]))"

text \<open>
  The decorator \<open>input_error\<close> turns a \<open>ValueError\<close> into its message and a
  \<open>KeyError\<close> into a fixed text.
\<close>

definition input_error :: "error + string \<Rightarrow> string" where
  "input_error r =
     (case r of
        Inl (ValueError msg) \<Rightarrow> msg
      | Inl KeyError \<Rightarrow> ''No such name found''
      | Inr s \<Rightarrow> s)"

text \<open>
  The body of \<open>add_contact\<close>. Unpacking \<open>args\<close> into two names raises \<open>ValueError\<close> when
  there are not exactly two (the message is the interpreter's, indicative here).
\<close>

definition add_contact_func ::
  "string list \<Rightarrow> AddressBook \<Rightarrow> (error + string) \<times> AddressBook" where
  "add_contact_func args book =
     (case args of
        [n, phone] \<Rightarrow>
          if \<not> PHONE_PATTERN_match phone then
            (Inl (ValueError
               ''Invalid phone number format. Please enter a 10-digit number.''), book)
          else if \<not> dict_contains n book then
            (case add_phone phone (Record n) of
               (Inl e, record) \<Rightarrow> (Inl e, book)
             | (Inr u, record) \<Rightarrow> (Inr ''Contact added.'', add_record record book))
          else
            (case map_of book n of
               None \<Rightarrow> (Inl KeyError, book)
             | Some record0 \<Rightarrow>
                 (case add_phone phone record0 of
                    (Inl e, record) \<Rightarrow> (Inl e, dict_set n record book)
                  | (Inr u, record) \<Rightarrow> (Inr ''Phone added.'', dict_set n record book)))
      | _ \<Rightarrow> (Inl (ValueError ''wrong number of values to unpack (expected 2)''), book))"

definition add_contact :: "string list \<Rightarrow> AddressBook \<Rightarrow> string \<times> AddressBook" where
  "add_contact args book =
     (case add_contact_func args book of (r, book') \<Rightarrow> (input_error r, book'))"

section \<open>The specification's notions\<close>

text \<open>
  The definitions of this section follow the words of the specification, not the code;
  the theorems below compare the code with them.
\<close>

subsection \<open>The birthday window\<close>








subsection \<open>Texts that denote a date\<close>







subsection \<open>The invariant of the address book\<close>

text \<open>
  "Keys equal the name field of their owned record. No two records share a name."
\<close>

definition book_inv :: "AddressBook \<Rightarrow> bool" where
  "book_inv book =
     (list_all (\<lambda>(k, r). k = name_value (name r)) book \<and>
      distinct (map (\<lambda>(k, r). name_value (name r)) book))"

datatype book_op = AddRecord Record | Find string | Delete string

fun apply_op :: "book_op \<Rightarrow> AddressBook \<Rightarrow> AddressBook" where
  "apply_op (AddRecord r) book = add_record r book"
| "apply_op (Find n) book = (case find_record n book of None \<Rightarrow> book | Some r \<Rightarrow> book)"
| "apply_op (Delete n) book = delete n book"

text \<open>The book reached from the empty one by a sequence of operations.\<close>

definition run_ops :: "book_op list \<Rightarrow> AddressBook" where
  "run_ops ops = foldl (\<lambda>book op. apply_op op book) [] ops"

section \<open>Auxiliary facts\<close>

lemma str_in_phones_never: "\<not> str_in_phones s ps"
  by (simp add: str_in_phones_def str_eq_Phone_def list_ex_iff)

lemma upcoming_loop_book: "snd (upcoming_loop today rs self acc) = self"
  by (induction rs arbitrary: acc) (auto split: sum.splits)

lemma dict_set_keys:
  "map fst (dict_set k v b) = (if k \<in> set (map fst b) then map fst b else map fst b @ [k])"
  by (induction b) force+

lemma dict_set_all: "P (k, v) \<Longrightarrow> list_all P b \<Longrightarrow> list_all P (dict_set k v b)"
  by (induction b) auto

lemma keyed_names:
  "list_all (\<lambda>(k, r). k = name_value (name r)) b \<Longrightarrow>
   map (\<lambda>(k, r). name_value (name r)) b = map fst b"
  by (induction b) auto

lemma book_inv_keys:
  "book_inv b \<longleftrightarrow> list_all (\<lambda>(k, r). k = name_value (name r)) b \<and> distinct (map fst b)"
proof (cases "list_all (\<lambda>(k, r). k = name_value (name r)) b")
  case True
  from keyed_names[OF True] show ?thesis by (simp only: book_inv_def)
next
  case False
  then show ?thesis by (simp add: book_inv_def)
qed

lemma book_inv_add: "book_inv b \<Longrightarrow> book_inv (add_record r b)"
  unfolding book_inv_keys add_record_def
  by (auto simp: dict_set_keys intro: dict_set_all)

lemma book_inv_delete: "book_inv b \<Longrightarrow> book_inv (delete n b)"
  unfolding book_inv_keys delete_def
  by (auto simp: list_all_iff distinct_map_filter)

lemma book_inv_apply: "book_inv b \<Longrightarrow> book_inv (apply_op op b)"
  by (cases op) (auto simp: book_inv_add book_inv_delete split: option.splits)

lemma book_inv_foldl: "book_inv b \<Longrightarrow> book_inv (foldl (\<lambda>book op. apply_op op book) b ops)"
  by (induction ops arbitrary: b) (auto simp: book_inv_apply)

text \<open>A record on which a round of the loop raises makes the whole loop raise.\<close>

lemma upcoming_loop_fails:
  "r \<in> set rs \<Longrightarrow> (\<And>acc. \<exists>e. upcoming_step today r acc = Inl e) \<Longrightarrow>
   \<exists>e. fst (upcoming_loop today rs self acc) = Inl e"
proof (induction rs arbitrary: acc)
  case Nil
  then show ?case by simp
next
  case (Cons x rs)
  show ?case
  proof (cases "upcoming_step today x acc")
    case (Inl e)
    then show ?thesis by simp
  next
    case (Inr acc')
    from Cons.prems(2)[of acc] Inr have "x \<noteq> r" by auto
    with Cons.prems(1) have "r \<in> set rs" by auto
    from Cons.IH[OF this Cons.prems(2)] Inr show ?thesis by simp
  qed
qed

lemma leap_next: "is_leap y \<Longrightarrow> \<not> is_leap (y + 1)"
  unfolding is_leap_def by presburger

lemma feb29_step:
  assumes "birthday r = Some b" "strptime (birthday_value b) = Inr d" "month d = 2" "day d = 29"
    and "\<not> is_leap (year today) \<or> date_less (Date (year today) 2 29) today"
  shows "\<exists>e. upcoming_step today r acc = Inl e"
proof (cases "is_leap (year today)")
  case False
  then have "\<exists>e. replace_year d (year today) = Inl e"
    using assms(3,4) by (simp add: replace_year_def date_new_def days_in_month_def DAYS_IN_MONTH_def)
  then show ?thesis using assms(1,2) by (auto simp: upcoming_step_def)
next
  case True
  with assms(5) have lt: "date_less (Date (year today) 2 29) today" by simp
  have nx: "\<exists>e. replace_year (Date (year today) 2 29) (year today + 1) = Inl e"
    using leap_next[OF True]
    by (simp add: replace_year_def date_new_def days_in_month_def DAYS_IN_MONTH_def)
  have "replace_year d (year today) = Inr (Date (year today) 2 29) \<or>
        (\<exists>e. replace_year d (year today) = Inl e)"
    using assms(3,4) by (simp add: replace_year_def date_new_def)
  then show ?thesis using assms(1,2) lt nx by (auto simp: upcoming_step_def)
qed

text \<open>The \<open>add\<close> command on a valid number.\<close>

lemma dict_set_absent: "k \<notin> set (map fst b) \<Longrightarrow> dict_set k v b = b @ [(k, v)]"
  by (induction b) auto

lemma dict_set_last: "k \<notin> set (map fst b) \<Longrightarrow> dict_set k v' (b @ [(k, v)]) = b @ [(k, v')]"
  by (induction b) auto

lemma map_of_dict_set: "map_of (dict_set k v b) = (map_of b)(k \<mapsto> v)"
  by (induction b) (auto simp: fun_upd_twist)

lemma valid_phone_pattern: "length p = 10 \<Longrightarrow> list_all re_digit p \<Longrightarrow> PHONE_PATTERN_match p"
  by (simp add: PHONE_PATTERN_match_def)

lemma re_digit_isdigit: "list_all re_digit p \<Longrightarrow> list_all isdigit_char p"
  by (simp add: list_all_iff isdigit_char_def)

lemma valid_phone_Phone: "length p = 10 \<Longrightarrow> list_all re_digit p \<Longrightarrow> Phone p = Inr (PhoneObj p)"
  using re_digit_isdigit[of p] by (auto simp: Phone_def isdigit_def)

lemma add_phone_appends:
  "length p = 10 \<Longrightarrow> list_all re_digit p \<Longrightarrow>
   add_phone p r = (Inr (), r\<lparr>phones := phones r @ [PhoneObj p]\<rparr>)"
  by (simp add: add_phone_def str_in_phones_never valid_phone_Phone)

lemma add_contact_absent:
  assumes "length p = 10" "list_all re_digit p" "\<not> dict_contains n book"
  shows "add_contact [n, p] book =
     (''Contact added.'',
      book @ [(n, \<lparr>name = NameObj n, phones = [PhoneObj p], birthday = None\<rparr>)])"
  using assms
  by (simp add: add_contact_def add_contact_func_def valid_phone_pattern add_phone_appends
      Record_def add_record_def dict_set_absent dict_contains_def input_error_def)

lemma add_contact_present:
  assumes "length p = 10" "list_all re_digit p" "map_of book n = Some r"
  shows "add_contact [n, p] book =
     (''Phone added.'', dict_set n (r\<lparr>phones := phones r @ [PhoneObj p]\<rparr>) book)"
proof -
  from assms(3) have "dict_contains n book"
    by (auto simp: dict_contains_def dest: map_of_SomeD intro: rev_image_eqI)
  with assms show ?thesis
    by (simp add: add_contact_def add_contact_func_def valid_phone_pattern add_phone_appends
      input_error_def)
qed





























































text \<open>On ASCII texts \<open>Phone\<close> accepts exactly the texts of ten decimal digits.\<close>

lemma Phone_on_ascii:
  assumes "list_all (\<lambda>c. (of_char c :: nat) < 128) s"
  shows "Phone s =
     (if length s = 10 \<and> list_all re_digit s then Inr (PhoneObj s)
      else Inl (ValueError ''Phone number must contain 10 digits.''))"
proof -
  have "isdigit_char c \<longleftrightarrow> re_digit c" if "(of_char c :: nat) < 128" for c
    using that by (auto simp: isdigit_char_def)
  with assms have "list_all isdigit_char s \<longleftrightarrow> list_all re_digit s"
    by (auto simp: list_all_iff)
  then show ?thesis by (auto simp: Phone_def isdigit_def)
qed

section \<open>The claims\<close>

text \<open>
  C2 (\<open>add_phone\<close> stores a number once): the membership test of \<open>add_phone\<close> compares
  the text with \<open>Phone\<close> objects and never succeeds, so adding the same valid number
  twice to a fresh record stores it twice.
\<close>

theorem add_phone_twice_stores_two:
  "snd (add_phone ''1111111111'' (snd (add_phone ''1111111111'' (Record ''Bob'')))) =
     \<lparr>name = NameObj ''Bob'',
      phones = [PhoneObj ''1111111111'', PhoneObj ''1111111111''],
      birthday = None\<rparr>"
  by code_simp

text \<open>
  C3 (\<open>edit_phone\<close> replaces a stored number in place and validates the new one): on a
  record that stores 1111111111, \<open>edit_phone\<close> of that number changes nothing, whether
  the new number is valid or not, and raises nothing.
\<close>

theorem edit_phone_never_replaces:
  "edit_phone ''1111111111'' ''2222222222''
     \<lparr>name = NameObj ''Bob'', phones = [PhoneObj ''1111111111''], birthday = None\<rparr> =
   (Inr (), \<lparr>name = NameObj ''Bob'', phones = [PhoneObj ''1111111111''], birthday = None\<rparr>) \<and>
   edit_phone ''1111111111'' ''abc''
     \<lparr>name = NameObj ''Bob'', phones = [PhoneObj ''1111111111''], birthday = None\<rparr> =
   (Inr (), \<lparr>name = NameObj ''Bob'', phones = [PhoneObj ''1111111111''], birthday = None\<rparr>)"
  by code_simp

text \<open>
  C4 (\<open>Phone\<close> accepts exactly the texts of ten decimal digits): a text of ten
  superscript twos, none of them a decimal digit, is accepted by \<open>Phone\<close>, while the
  pattern of the \<open>add\<close> command rejects it.
\<close>

theorem Phone_accepts_superscript_digits:
  "Phone [CHR 0xB2, CHR 0xB2, CHR 0xB2, CHR 0xB2, CHR 0xB2,
          CHR 0xB2, CHR 0xB2, CHR 0xB2, CHR 0xB2, CHR 0xB2] =
     Inr (PhoneObj [CHR 0xB2, CHR 0xB2, CHR 0xB2, CHR 0xB2, CHR 0xB2,
                    CHR 0xB2, CHR 0xB2, CHR 0xB2, CHR 0xB2, CHR 0xB2]) \<and>
   \<not> list_all re_digit [CHR 0xB2, CHR 0xB2, CHR 0xB2, CHR 0xB2, CHR 0xB2,
                        CHR 0xB2, CHR 0xB2, CHR 0xB2, CHR 0xB2, CHR 0xB2] \<and>
   \<not> PHONE_PATTERN_match [CHR 0xB2, CHR 0xB2, CHR 0xB2, CHR 0xB2, CHR 0xB2,
                           CHR 0xB2, CHR 0xB2, CHR 0xB2, CHR 0xB2, CHR 0xB2]"
  by code_simp

theorem Phone_accepts_superscript_digits_witness:
  "\<exists>s. isdigit s \<and> length s = 10 \<and> \<not> list_all re_digit s \<and> Phone s = Inr (PhoneObj s)"
proof -
  let ?s = "[CHR 0xB2, CHR 0xB2, CHR 0xB2, CHR 0xB2, CHR 0xB2,
             CHR 0xB2, CHR 0xB2, CHR 0xB2, CHR 0xB2, CHR 0xB2]"
  have "isdigit ?s \<and> length ?s = 10" by code_simp
  with Phone_accepts_superscript_digits show ?thesis by blast
qed

text \<open>
  C6 (a birthday on February 29 makes the query fail when the target year is no leap
  year): if some record of the book has a birthday that parses to a 29th of February,
  and either this year is no leap year, or it is one and its 29th of February precedes
  today (so that the occurrence is built for next year), then
  \<open>get_upcoming_birthdays\<close> raises.
\<close>

theorem feb29_upcoming_fails:
  assumes "(k, r) \<in> set book" "birthday r = Some b" "strptime (birthday_value b) = Inr d"
    "month d = 2" "day d = 29"
    and "\<not> is_leap (year today) \<or> date_less (Date (year today) 2 29) today"
  shows "\<exists>e. fst (get_upcoming_birthdays today book) = Inl e"
proof -
  from assms(1) have "r \<in> set (map snd book)" by force
  then show ?thesis
    unfolding get_upcoming_birthdays_def
    using upcoming_loop_fails feb29_step[OF assms(2-6)] by blast
qed

theorem feb29_upcoming_fails_witness:
  "strptime ''29.02.2024'' = Inr (Date 2024 2 29) \<and> \<not> is_leap 2023 \<and>
   (\<exists>e. fst (get_upcoming_birthdays (Date 2023 6 10)
      [(''Ann'', \<lparr>name = NameObj ''Ann'', phones = [],
                  birthday = Some (BirthdayObj ''29.02.2024'')\<rparr>)]) = Inl e)"
proof -
  let ?r = "\<lparr>name = NameObj ''Ann'', phones = [],
             birthday = Some (BirthdayObj ''29.02.2024'')\<rparr>"
  have m: "(''Ann'', ?r) \<in> set [(''Ann'', ?r)]" by simp
  have b: "birthday ?r = Some (BirthdayObj ''29.02.2024'')" by simp
  have p: "strptime (birthday_value (BirthdayObj ''29.02.2024'')) = Inr (Date 2024 2 29)"
    by code_simp
  have l: "\<not> is_leap 2023" by code_simp
  have l': "\<not> is_leap (year (Date 2023 6 10)) \<or>
            date_less (Date (year (Date 2023 6 10)) 2 29) (Date 2023 6 10)"
    using l by simp
  have "\<exists>e. fst (get_upcoming_birthdays (Date 2023 6 10) [(''Ann'', ?r)]) = Inl e"
    using feb29_upcoming_fails [OF m b p _ _ l'] by simp
  with p l show ?thesis by simp
qed

text \<open>
  C8 (no partial mutation): when \<open>add_phone\<close> or \<open>add_birthday\<close> raises, the record after
  the call is the record before the call.
\<close>

theorem failed_add_leaves_record:
  "(fst (add_phone p r) = Inl e \<longrightarrow> snd (add_phone p r) = r) \<and>
   (fst (add_birthday b r) = Inl e' \<longrightarrow> snd (add_birthday b r) = r)"
  by (auto simp: add_phone_def add_birthday_def split: sum.splits)

theorem failed_add_leaves_record_witness:
  "fst (add_phone ''12345'' (Record ''Bob'')) =
     Inl (ValueError ''Phone number must contain 10 digits.'') \<and>
   snd (add_phone ''12345'' (Record ''Bob'')) = Record ''Bob'' \<and>
   fst (add_birthday ''31.02.2024'' (Record ''Bob'')) =
     Inl (ValueError ''Invalid date format. Use DD.MM.YYYY'') \<and>
   snd (add_birthday ''31.02.2024'' (Record ''Bob'')) = Record ''Bob''"
proof -
  have a: "fst (add_phone ''12345'' (Record ''Bob'')) =
      Inl (ValueError ''Phone number must contain 10 digits.'')"
    by code_simp
  have b: "fst (add_birthday ''31.02.2024'' (Record ''Bob'')) =
      Inl (ValueError ''Invalid date format. Use DD.MM.YYYY'')"
    by code_simp
  from failed_add_leaves_record [of "''12345''" "Record ''Bob''" _ "''31.02.2024''"] a b
  show ?thesis by blast
qed

text \<open>
  C9 (the invariant of the book): in every book reached from the empty one by
  \<open>add_record\<close>, \<open>find\<close> and \<open>delete\<close>, every key is the name of its record and no two
  records share a name; \<open>add_record\<close> and \<open>delete\<close> each preserve that.
\<close>

theorem book_invariant:
  "book_inv (run_ops ops) \<and>
   (book_inv b \<longrightarrow> book_inv (add_record r b)) \<and>
   (book_inv b \<longrightarrow> book_inv (delete n b))"
proof -
  have "book_inv []" by (simp add: book_inv_def)
  then show ?thesis
    unfolding run_ops_def using book_inv_foldl book_inv_add book_inv_delete by blast
qed

theorem book_invariant_witness:
  "book_inv [(''Ann'', Record ''Ann'')] \<and>
   run_ops [AddRecord (Record ''Ann''), AddRecord (Record ''Bob''), Find ''Ann'',
            Delete ''Ann'', AddRecord (Record ''Bob'')] = [(''Bob'', Record ''Bob'')] \<and>
   book_inv (run_ops [AddRecord (Record ''Ann''), AddRecord (Record ''Bob''), Find ''Ann'',
            Delete ''Ann'', AddRecord (Record ''Bob'')]) \<and>
   book_inv (add_record (Record ''Bob'') [(''Ann'', Record ''Ann'')]) \<and>
   book_inv (delete ''Ann'' [(''Ann'', Record ''Ann'')])"
proof -
  have a: "book_inv [(''Ann'', Record ''Ann'')]" by code_simp
  have b: "run_ops [AddRecord (Record ''Ann''), AddRecord (Record ''Bob''), Find ''Ann'',
            Delete ''Ann'', AddRecord (Record ''Bob'')] = [(''Bob'', Record ''Bob'')]"
    by code_simp
  from a b book_invariant [of "[AddRecord (Record ''Ann''), AddRecord (Record ''Bob''),
      Find ''Ann'', Delete ''Ann'', AddRecord (Record ''Bob'')]" "[(''Ann'', Record ''Ann'')]"]
  show ?thesis by blast
qed

text \<open>
  C10 (the query is read-only): whatever \<open>get_upcoming_birthdays\<close> returns or raises,
  the book after the call is the book before the call.
\<close>

theorem upcoming_leaves_book: "snd (get_upcoming_birthdays today book) = book"
  by (simp add: get_upcoming_birthdays_def upcoming_loop_book)

theorem upcoming_leaves_book_witness:
  "snd (get_upcoming_birthdays (Date 2024 6 10)
     [(''Ann'', \<lparr>name = NameObj ''Ann'', phones = [PhoneObj ''0123456789''],
                 birthday = Some (BirthdayObj ''12.06.1990'')\<rparr>)]) =
   [(''Ann'', \<lparr>name = NameObj ''Ann'', phones = [PhoneObj ''0123456789''],
               birthday = Some (BirthdayObj ''12.06.1990'')\<rparr>)]"
  by (rule upcoming_leaves_book)

text \<open>
  C7 (the \<open>add\<close> command is an upsert): for numbers of ten decimal digits, \<open>add\<close> of an
  absent name appends a new record holding that number; \<open>add\<close> of a present name
  answers "Phone added.", keeps the keys and their order, and appends the number to that
  record's phones; and two \<open>add\<close>s of an absent name leave one record with the two
  numbers in that order.
\<close>

theorem add_contact_upsert:
  assumes "length p = 10" "list_all re_digit p" "length q = 10" "list_all re_digit q"
  shows "(\<not> dict_contains n book \<longrightarrow>
            add_contact [n, p] book =
              (''Contact added.'',
               book @ [(n, \<lparr>name = NameObj n, phones = [PhoneObj p], birthday = None\<rparr>)])) \<and>
         (map_of book n = Some r \<longrightarrow>
            fst (add_contact [n, p] book) = ''Phone added.'' \<and>
            map fst (snd (add_contact [n, p] book)) = map fst book \<and>
            map_of (snd (add_contact [n, p] book)) =
              (map_of book)(n \<mapsto> r\<lparr>phones := phones r @ [PhoneObj p]\<rparr>)) \<and>
         (\<not> dict_contains n book \<longrightarrow>
            add_contact [n, q] (snd (add_contact [n, p] book)) =
              (''Phone added.'',
               book @ [(n, \<lparr>name = NameObj n, phones = [PhoneObj p, PhoneObj q],
                            birthday = None\<rparr>)]))"
proof (intro conjI impI)
  assume "\<not> dict_contains n book"
  then show "add_contact [n, p] book =
     (''Contact added.'',
      book @ [(n, \<lparr>name = NameObj n, phones = [PhoneObj p], birthday = None\<rparr>)])"
    using assms by (simp add: add_contact_absent)
next
  assume r: "map_of book n = Some r"
  then have k: "n \<in> set (map fst book)" by (auto dest: map_of_SomeD intro: rev_image_eqI)
  note e = add_contact_present[OF assms(1,2) r]
  show "fst (add_contact [n, p] book) = ''Phone added.''" by (simp add: e)
  show "map fst (snd (add_contact [n, p] book)) = map fst book"
    using k by (simp add: e dict_set_keys)
  show "map_of (snd (add_contact [n, p] book)) =
      (map_of book)(n \<mapsto> r\<lparr>phones := phones r @ [PhoneObj p]\<rparr>)"
    by (simp add: e map_of_dict_set)
next
  assume a: "\<not> dict_contains n book"
  let ?r = "\<lparr>name = NameObj n, phones = [PhoneObj p], birthday = None\<rparr>"
  from a have k: "n \<notin> set (map fst book)" by (simp add: dict_contains_def)
  then have m: "map_of (book @ [(n, ?r)]) n = Some ?r"
    by (simp add: map_add_def map_of_eq_None_iff[THEN iffD2])
  show "add_contact [n, q] (snd (add_contact [n, p] book)) =
              (''Phone added.'',
               book @ [(n, \<lparr>name = NameObj n, phones = [PhoneObj p, PhoneObj q],
                            birthday = None\<rparr>)])"
    using add_contact_present[OF assms(3,4) m] k
    by (simp add: add_contact_absent[OF assms(1,2) a] dict_set_last)
qed

theorem add_contact_upsert_witness: "add_contact [''Bob'', ''2222222222''] (snd (add_contact [''Bob'', ''1111111111''] [])) =
   (''Phone added.'', [(''Bob'', \<lparr>name = NameObj ''Bob'', phones = [PhoneObj ''1111111111'', PhoneObj ''2222222222''],
                            birthday = None\<rparr>)])"
proof -
  have a: "length ''1111111111'' = 10" "list_all re_digit ''1111111111''"
     "length ''2222222222'' = 10" "list_all re_digit ''2222222222''"
    by (simp_all add: re_digit_def)
  have b: "\<not> dict_contains ''Bob'' []" by (simp add: dict_contains_def)
  from add_contact_upsert [OF a, of "''Bob''" "[]"] b
  have "add_contact [''Bob'', ''2222222222''] (snd (add_contact [''Bob'', ''1111111111''] [])) =
     (''Phone added.'', [] @ [(''Bob'', \<lparr>name = NameObj ''Bob'',
        phones = [PhoneObj ''1111111111'', PhoneObj ''2222222222''], birthday = None\<rparr>)])"
    by blast
  then show ?thesis by simp
qed







end
